theory Spec2Isabelle
  imports Main "HOL-Library.Word" "HOL-Library.Monad_Syntax"
begin

unbundle bit_operations_syntax

section \<open>Command validation (\<open>validate_cmd\<close> in src/child.cpp)\<close>

text \<open>
  \<open>constexpr unsigned int maxargs = 256;\<close>
\<close>

definition maxargs :: nat where
  "maxargs = 256"

text \<open>
  Everything the launcher throws is a \<open>std::runtime_error\<close> or a \<open>std::system_error\<close>
  (a subclass of \<open>std::runtime_error\<close>). The message texts are kept as structured
  values: the constructor says which \<open>throw\<close> built the exception, the arguments are
  the values the source formats into the message.
  \<^item> \<open>NotFound c\<close>: "path 'c' does not exist or is not executable";
  \<^item> \<open>AmbiguousBinary c n\<close>: "path 'c' must refer to a unique binary but matched n binaries";
  \<^item> \<open>TooManyArguments n m\<close>: "Too many arguments for command (n > m)";
  \<^item> \<open>ChildDied\<close>: "Child died unexpectedly";
  \<^item> \<open>UnexpectedStatus m\<close>: the exception of \<open>report_status\<close>;
  \<^item> \<open>SystemError e msg\<close>: \<open>SYS_ERROR(msg)\<close>, that is
    \<open>std::system_error{errno, generic_category(), msg}\<close> with \<open>e\<close> the value of
    \<open>errno\<close> when it was built.
  Two outcomes are not exceptions: \<open>AssertFailed\<close> is a failing \<open>assert\<close> (the process
  aborts), and \<open>OutOfRange\<close> marks \<open>cmd[0]\<close> on an empty vector, which is undefined
  in the source; no theorem below relies on what happens there.
\<close>

datatype status_msg =
    StoppedUnexpectedly int
  | ExitedUnexpectedly
  | CoreDumped
  | AbortedBySignal int
  | EmptyMessage

datatype sys_msg =
    Failed_to_create_event_fd
  | Failed_to_clone_child
  | Failed_to_write_go_event_fd
  | Failed_to_PTRACE_SETOPTIONS_child
  | Failed_to_PTRACE_CONT_child
  | Error_while_waiting_for_child

datatype error =
    NotFound string
  | AmbiguousBinary string nat
  | TooManyArguments nat nat
  | ChildDied
  | UnexpectedStatus status_msg
  | SystemError int sys_msg
  | AssertFailed
  | OutOfRange

text \<open>
  The loop that fills \<open>uniq_abs_path\<close>: every candidate is canonicalised with
  \<open>util::abs_path\<close>; a candidate without a real path is skipped (\<open>continue\<close>), the
  others are inserted into the \<open>std::unordered_set\<close>. \<open>util::abs_path\<close> is not part
  of the sources at hand and is a parameter.
\<close>

definition uniq_abs_path :: "(string \<Rightarrow> string option) \<Rightarrow> string list \<Rightarrow> string set" where
  "uniq_abs_path abs_path paths =
     fold (\<lambda>path uniq. case abs_path path of None \<Rightarrow> uniq | Some absolute \<Rightarrow> insert absolute uniq)
       paths {}"

text \<open>
  \<open>validate_cmd(std::vector<std::string>& cmd)\<close>. The vector is changed in place
  (\<open>cmd[0] = paths.front()\<close>); the model returns the new vector. \<open>util::resolve_binary_path\<close>
  is not part of the sources at hand and is a parameter, as \<open>util::abs_path\<close> is.
\<close>

definition validate_cmd ::
  "(string \<Rightarrow> string list) \<Rightarrow> (string \<Rightarrow> string option) \<Rightarrow> string list \<Rightarrow> error + string list" where
  "validate_cmd resolve_binary_path abs_path cmd =
     (case cmd of
        [] \<Rightarrow> Inl OutOfRange
      | c # args \<Rightarrow>
          (let paths = resolve_binary_path c;
               switch =
                 (case paths of
                    [] \<Rightarrow> Inl (NotFound c)
                  | [p] \<Rightarrow> Inr (p # args)
                  | p # _ \<Rightarrow>
                      if card (uniq_abs_path abs_path paths) = 1 then Inr (p # args)
                      else Inl (AmbiguousBinary c (length paths)))
           in case switch of
                Inl e \<Rightarrow> Inl e
              | Inr cmd' \<Rightarrow>
                  if length cmd' \<ge> maxargs - 1
                  then Inl (TooManyArguments (length cmd') (maxargs - 1))
                  else Inr cmd'))"

section \<open>The operating system as the launcher sees it\<close>

text \<open>
  The launcher is a sequence of system calls whose results decide what it does next.
  The model threads a \<open>world\<close> through the code: the calls issued so far (\<open>trace\<close>, oldest
  first), the answers the operating system will give to the coming calls (\<open>script\<close>, one
  \<open>reply\<close> per call, in order) and the thread's \<open>errno\<close>. A call takes the next reply;
  a failing call (\<open>ret < 0\<close>) stores its error number in \<open>errno\<close>. When the script is
  used up the call has no answer and the model returns \<open>None\<close>: the operation does not
  return. Every finite run of the real code is the run of the model on the script of the
  answers it received.
\<close>

record reply =
  ret :: int
  err :: int
  wstatus_out :: "32 word"

datatype ptrace_request = PTRACE_TRACEME | PTRACE_DETACH | PTRACE_SETOPTIONS | PTRACE_CONT

datatype event =
    Alloc_child_args
  | Alloc_child_stack nat
  | Free_child_stack
  | Free_child_args
  | Eventfd
  | Clone "string list" int
  | Close int
  | Write int "64 word"
  | is_Kill: Kill int int
  | is_Ptrace: Ptrace ptrace_request int
  | is_Waitpid: Waitpid int int
  | Log_bug
  | Log_warning int int

record world =
  trace :: "event list"
  script :: "reply list"
  errno :: int

definition syscall :: "event \<Rightarrow> world \<Rightarrow> (reply \<times> world) option" where
  "syscall e w =
     (case script w of
        [] \<Rightarrow> None
      | r # rs \<Rightarrow>
          Some (r, \<lparr>trace = trace w @ [e], script = rs,
                    errno = (if ret r < 0 then err r else errno w)\<rparr>))"

text \<open>Allocation, release and logging are recorded in the trace and take no reply.\<close>

definition emit :: "event \<Rightarrow> world \<Rightarrow> world" where
  "emit e w = w\<lparr>trace := trace w @ [e]\<rparr>"

text \<open>Log entries, as opposed to calls.\<close>

fun is_log :: "event \<Rightarrow> bool" where
  "is_log Log_bug = True"
| "is_log (Log_warning _ _) = True"
| "is_log _ = False"

text \<open>
  Whether the stack region of \<open>std::make_unique<char[]>(STACK_SIZE)\<close> is allocated after
  the events of a trace: the last allocation or release decides.
\<close>

definition child_stack_allocated :: "event list \<Rightarrow> bool" where
  "child_stack_allocated evs =
     fold (\<lambda>e live. case e of Alloc_child_stack _ \<Rightarrow> True | Free_child_stack \<Rightarrow> False | _ \<Rightarrow> live)
       evs False"

subsection \<open>Constants of the system headers (Linux)\<close>

definition WNOHANG :: int where "WNOHANG = 1"
definition SIGTRAP :: int where "SIGTRAP = 5"
definition SIGKILL :: int where "SIGKILL = 9"
definition SIGTERM :: int where "SIGTERM = 15"
definition SIGSTOP :: int where "SIGSTOP = 19"
definition PTRACE_EVENT_EXEC :: int where "PTRACE_EVENT_EXEC = 4"
definition EINTR :: int where "EINTR = 4"
definition ECHILD :: int where "ECHILD = 10"
definition EINVAL :: int where "EINVAL = 22"

text \<open>
  The status macros of \<open><sys/wait.h>\<close> on the 32-bit \<open>int\<close> status:
  \<open>WTERMSIG(s) = s & 0x7f\<close>, \<open>WEXITSTATUS(s) = (s & 0xff00) >> 8\<close>,
  \<open>WSTOPSIG = WEXITSTATUS\<close>, \<open>WIFEXITED(s) = (WTERMSIG(s) == 0)\<close>,
  \<open>WIFSIGNALED(s) = ((signed char) ((s & 0x7f) + 1) >> 1) > 0\<close>,
  \<open>WIFSTOPPED(s) = ((s & 0xff) == 0x7f)\<close>, \<open>WCOREDUMP(s) = s & 0x80\<close>.
\<close>

definition WTERMSIG :: "32 word \<Rightarrow> int" where
  "WTERMSIG s = uint (s AND 0x7f)"

definition WEXITSTATUS :: "32 word \<Rightarrow> int" where
  "WEXITSTATUS s = uint (drop_bit 8 (s AND 0xff00))"

definition WSTOPSIG :: "32 word \<Rightarrow> int" where
  "WSTOPSIG s = WEXITSTATUS s"

definition WIFEXITED :: "32 word \<Rightarrow> bool" where
  "WIFEXITED s = (WTERMSIG s = 0)"

definition WIFSIGNALED :: "32 word \<Rightarrow> bool" where
  "WIFSIGNALED s = (sint (signed_drop_bit 1 (ucast ((s AND 0x7f) + 1) :: 8 word)) > 0)"

definition WIFSTOPPED :: "32 word \<Rightarrow> bool" where
  "WIFSTOPPED s = (s AND 0xff = 0x7f)"

definition WCOREDUMP :: "32 word \<Rightarrow> bool" where
  "WCOREDUMP s = (s AND 0x80 \<noteq> 0)"

subsection \<open>Constants of src/child.cpp\<close>

definition CHILD_GO :: "64 word" where "CHILD_GO = 0x67"
definition CHILD_PTRACE :: "64 word" where "CHILD_PTRACE = 0x70"
definition STACK_SIZE :: nat where "STACK_SIZE = 64 * 1024"

text \<open>
  \<open>report_status(int wstatus)\<close> builds a message from the status and always throws
  \<open>std::runtime_error(msg)\<close>; the model returns the exception. A status that is neither
  stopped, exited nor signaled (a continued one) gives the empty message.
\<close>

definition report_status :: "32 word \<Rightarrow> error" where
  "report_status wstatus =
     UnexpectedStatus
       (if WIFSTOPPED wstatus then StoppedUnexpectedly (WSTOPSIG wstatus)
        else if WIFEXITED wstatus then ExitedUnexpectedly
        else if WIFSIGNALED wstatus then
          (if WCOREDUMP wstatus then CoreDumped else AbortedBySignal (WTERMSIG wstatus))
        else EmptyMessage)"

section \<open>The tracker object (\<open>ChildProc\<close>)\<close>

text \<open>
  The class is declared in child.h, which is not part of the sources at hand. The model has
  the members and the states that src/child.cpp uses; the members are written without the
  trailing underscore of the source (\<open>child_pid\<close> is the member named child_pid_ there,
  and so on).
\<close>

datatype State = FORKED | RUNNING | PTRACE_PAUSE | DIED

record ChildProc =
  child_pid :: int
  child_event_fd :: int
  state :: State
  exit_code :: int
  term_signal :: int

text \<open>
  Modelled from the spec: \<open>died()\<close> is declared in child.h, which is missing; the spec's
  \<open>isAlive\<close> "returns whether the process has not transitioned to Dead".
\<close>

definition died :: "ChildProc \<Rightarrow> bool" where
  "died this = (state this = DIED)"

text \<open>\<open>ChildProc::check_wstatus(int wstatus)\<close>\<close>

definition check_wstatus :: "32 word \<Rightarrow> ChildProc \<Rightarrow> ChildProc" where
  "check_wstatus wstatus this =
     (if WIFEXITED wstatus then this\<lparr>exit_code := WEXITSTATUS wstatus, state := DIED\<rparr>
      else if WIFSIGNALED wstatus then this\<lparr>term_signal := WTERMSIG wstatus, state := DIED\<rparr>
      else this)"

text \<open>
  The loop of \<open>check_child\<close>:
  \<open>while ((ret = waitpid(pid, &status, flags)) < 0 && errno == EINTR);\<close>
  It ends with the first reply that is not an interrupted call.
\<close>

function waitpid_retry :: "int \<Rightarrow> int \<Rightarrow> world \<Rightarrow> (reply \<times> world) option" where
  "waitpid_retry pid flags w =
     (case syscall (Waitpid pid flags) w of
        None \<Rightarrow> None
      | Some (r, w') \<Rightarrow>
          if ret r < 0 \<and> errno w' = EINTR then waitpid_retry pid flags w' else Some (r, w'))"
  by pat_completeness auto
termination
  by (relation "measure (\<lambda>(pid, flags, w). length (script w))")
     (auto simp: syscall_def split: list.splits)

declare waitpid_retry.simps [simp del]

text \<open>
  \<open>ChildProc::check_child(bool block)\<close>. \<open>status\<close> starts as 0 and \<open>waitpid\<close> stores
  a status only when it returns a process id.

  Modelled from the spec: \<open>LOG(BUG)\<close> comes from log.h, which is missing; the spec says
  that after logging a "BUG" condition the code continues. After \<open>waitpid() EINVAL\<close>
  control therefore reaches \<open>check_wstatus(status)\<close> with \<open>status = 0\<close>.
\<close>

definition check_child :: "bool \<Rightarrow> ChildProc \<Rightarrow> world \<Rightarrow> (ChildProc \<times> world) option" where
  "check_child block this w =
     (let flags = WNOHANG;
          flags = (if block then flags AND NOT WNOHANG else flags)
      in do {
        (r, w1) \<leftarrow> waitpid_retry (child_pid this) flags w;
        let status = (if ret r > 0 then wstatus_out r else 0);
        if ret r < 0 \<and> errno w1 \<noteq> EINVAL then
          Some (this\<lparr>state := DIED\<rparr>, emit (Log_warning (child_pid this) (errno w1)) w1)
        else do {
          let w2 = (if ret r < 0 then emit Log_bug w1 else w1);
          if ret r = 0 then Some (this, w2)
          else Some (check_wstatus status this, w2)
        }
      })"

text \<open>\<open>ChildProc::is_alive()\<close>\<close>

definition is_alive :: "ChildProc \<Rightarrow> world \<Rightarrow> (bool \<times> ChildProc \<times> world) option" where
  "is_alive this w = do {
     (this1, w1) \<leftarrow> (if \<not> died this then check_child False this w else Some (this, w));
     Some (\<not> died this1, this1, w1)
   }"

text \<open>
  \<open>ChildProc::terminate(bool force)\<close>: poll, return if dead, \<open>kill\<close>, then
  \<open>PTRACE_DETACH\<close> when the state is \<open>PTRACE_PAUSE\<close>, then \<open>check_child(force)\<close>.
  The results of \<open>kill\<close> and \<open>ptrace\<close> are not looked at.
\<close>

definition terminate :: "bool \<Rightarrow> ChildProc \<Rightarrow> world \<Rightarrow> (ChildProc \<times> world) option" where
  "terminate force this w = do {
     (this1, w1) \<leftarrow> check_child False this w;
     if died this1 then Some (this1, w1)
     else do {
       let w2 = (if child_pid this1 \<le> 1 then emit Log_bug w1 else w1);
       let sig = (if force then SIGKILL else SIGTERM);
       (_, w3) \<leftarrow> syscall (Kill (child_pid this1) sig) w2;
       w4 \<leftarrow> (if state this1 = PTRACE_PAUSE
               then map_option snd (syscall (Ptrace PTRACE_DETACH (child_pid this1)) w3)
               else Some w3);
       check_child force this1 w4
     }
   }"

text \<open>
  \<open>ChildProc::resume()\<close>. \<open>assert(state_ == State::PTRACE_PAUSE)\<close> is modelled as
  checked; in a build with \<open>NDEBUG\<close> the detach is issued from any state. No statement
  below is about \<open>resume\<close>.
\<close>

definition resume :: "ChildProc \<Rightarrow> world \<Rightarrow> ((error + unit) \<times> ChildProc \<times> world) option" where
  "resume this w =
     (if state this \<noteq> PTRACE_PAUSE then Some (Inl AssertFailed, this, w)
      else do {
        (_, w1) \<leftarrow> syscall (Ptrace PTRACE_DETACH (child_pid this)) w;
        Some (Inr (), this, w1)
      })"

text \<open>
  The \<open>try\<close> block of \<open>ChildProc::run\<close>. Each \<open>throw SYS_ERROR(...)\<close> and the final
  \<open>report_status\<close> leave the block with an exception (\<open>Inl\<close>); \<open>Inr\<close> is the
  \<open>return\<close> on the exec stop. \<open>wstatus\<close> is the status of the first wait; the second
  \<open>waitpid\<close> overwrites it when it returns a process id.
\<close>

definition run_try :: "32 word \<Rightarrow> ChildProc \<Rightarrow> world \<Rightarrow> ((error + unit) \<times> world) option" where
  "run_try wstatus this w = do {
     (r1, w1) \<leftarrow> syscall (Ptrace PTRACE_SETOPTIONS (child_pid this)) w;
     if ret r1 < 0 then Some (Inl (SystemError (errno w1) Failed_to_PTRACE_SETOPTIONS_child), w1)
     else do {
       (r2, w2) \<leftarrow> syscall (Ptrace PTRACE_CONT (child_pid this)) w1;
       if ret r2 < 0 then Some (Inl (SystemError (errno w2) Failed_to_PTRACE_CONT_child), w2)
       else do {
         (r3, w3) \<leftarrow> syscall (Waitpid (child_pid this) 0) w2;
         if ret r3 < 0 then Some (Inl (SystemError (errno w3) Error_while_waiting_for_child), w3)
         else do {
           let wstatus = (if ret r3 > 0 then wstatus_out r3 else wstatus);
           if WIFSTOPPED wstatus \<and>
              sint (signed_drop_bit 8 wstatus) = (SIGTRAP OR push_bit 8 PTRACE_EVENT_EXEC)
           then Some (Inr (), w3)
           else Some (Inl (report_status wstatus), w3)
         }
       }
     }
   }"

text \<open>
  \<open>ChildProc::run(bool pause)\<close>. \<open>int wstatus;\<close> is not initialised: \<open>garbage\<close> is
  the value it holds when the first \<open>waitpid\<close> fails with an error other than
  \<open>ECHILD\<close> and the code goes on to test it. Every exception thrown inside the \<open>try\<close>
  block is a \<open>std::runtime_error\<close> (\<open>std::system_error\<close> derives from it), so the handler
  catches each of them. The \<open>report_status\<close> after the first wait stands before the
  \<open>try\<close> block. \<open>assert(state_ == State::FORKED)\<close> is modelled as checked: a failing
  assertion aborts the process (\<open>AssertFailed\<close>). In a build with \<open>NDEBUG\<close> the assertion
  is compiled out and \<open>run\<close> on a tracker that is not \<open>FORKED\<close> goes on to write the
  token; the model does not cover that build for such a tracker, and every statement below
  about \<open>run\<close> starts from a \<open>FORKED\<close> tracker, where both builds agree.
\<close>

definition run :: "bool \<Rightarrow> 32 word \<Rightarrow> ChildProc \<Rightarrow> world \<Rightarrow> ((error + unit) \<times> ChildProc \<times> world) option" where
  "run pause garbage this w = do {
     (alive, this1, w1) \<leftarrow> is_alive this w;
     if \<not> alive then Some (Inl ChildDied, this1, w1)
     else if state this1 \<noteq> FORKED then Some (Inl AssertFailed, this1, w1)
     else do {
       let data = (if pause then CHILD_PTRACE else CHILD_GO);
       (r2, w2) \<leftarrow> syscall (Write (child_event_fd this1) data) w1;
       if ret r2 < 0 then do {
         (_, w3) \<leftarrow> syscall (Close (child_event_fd this1)) w2;
         (this4, w4) \<leftarrow> terminate True this1 w3;
         Some (Inl (SystemError (errno w4) Failed_to_write_go_event_fd), this4, w4)
       }
       else do {
         (_, w3) \<leftarrow> syscall (Close (child_event_fd this1)) w2;
         if \<not> pause then Some (Inr (), this1\<lparr>state := RUNNING\<rparr>, w3)
         else do {
           let this3 = this1\<lparr>state := PTRACE_PAUSE\<rparr>;
           (r4, w4) \<leftarrow> syscall (Waitpid (child_pid this3) 0) w3;
           if ret r4 < 0 \<and> errno w4 = ECHILD then Some (Inl ChildDied, this3, w4)
           else do {
             let wstatus = (if ret r4 > 0 then wstatus_out r4 else garbage);
             if \<not> WIFSTOPPED wstatus \<or> WSTOPSIG wstatus \<noteq> SIGSTOP
             then Some (Inl (report_status wstatus), this3, w4)
             else do {
               (res, w5) \<leftarrow> run_try wstatus this3 w4;
               case res of
                 Inr _ \<Rightarrow> Some (Inr (), this3, w5)
               | Inl e \<Rightarrow> do {
                   (_, w6) \<leftarrow> syscall (Ptrace PTRACE_DETACH (child_pid this3)) w5;
                   (this7, w7) \<leftarrow> terminate True this3 w6;
                   Some (Inl (SystemError (errno w7) Failed_to_write_go_event_fd), this7, w7)
                 }
             }
           }
         }
       }
     }
   }"

section \<open>Construction and destruction\<close>

text \<open>
  \<open>ChildProc::ChildProc(std::string cmd)\<close>. \<open>child_args\<close> and \<open>child_stack\<close> are
  \<open>std::unique_ptr\<close> locals of the constructor: both allocations are released when the
  constructor is left, by \<open>return\<close> or by an exception, in reverse order of declaration.
  \<open>clone\<close> is called with the flags \<open>SIGCHLD\<close> only (no \<open>CLONE_VM\<close>): the child
  runs on its own copy of the address space. The \<open>Clone\<close> event records what the child
  is given, the command and the gate.
  \<open>util::split_string\<close> is not part of the sources at hand and is a parameter, as are
  the values \<open>exit_code0\<close> and \<open>term_signal0\<close> that child.h gives the two members the
  constructor does not assign.

  After a failing \<open>eventfd\<close> the source evaluates \<open>SYS_ERROR("Failed to create event fd")\<close>
  as an expression statement, without \<open>throw\<close>: the exception object is built and dropped
  (\<open>dropped\<close> below) and control goes on to \<open>clone\<close>.

  An exception leaves no object behind: the result is \<open>Inl\<close> and the destructor never runs.
\<close>

definition ChildProc_ctor ::
  "(string \<Rightarrow> string list) \<Rightarrow> (string \<Rightarrow> string list) \<Rightarrow> (string \<Rightarrow> string option) \<Rightarrow>
   int \<Rightarrow> int \<Rightarrow> string \<Rightarrow> world \<Rightarrow> ((error + ChildProc) \<times> world) option" where
  "ChildProc_ctor split_string resolve_binary_path abs_path exit_code0 term_signal0 cmd w =
     (let w1 = emit Alloc_child_args w;
          w2 = emit (Alloc_child_stack STACK_SIZE) w1;
          leave = (\<lambda>w. emit Free_child_args (emit Free_child_stack w))
      in case validate_cmd resolve_binary_path abs_path (split_string cmd) of
           Inl e \<Rightarrow> Some (Inl e, leave w2)
         | Inr args \<Rightarrow> do {
             (r3, w3) \<leftarrow> syscall Eventfd w2;
             let event_fd = ret r3;
             let dropped = (if event_fd < 0
                            then Some (SystemError (errno w3) Failed_to_create_event_fd)
                            else None);
             (r4, w4) \<leftarrow> syscall (Clone args event_fd) w3;
             let cpid = ret r4;
             if cpid \<le> 0 then do {
               (_, w5) \<leftarrow> syscall (Close event_fd) w4;
               Some (Inl (SystemError (errno w5) Failed_to_clone_child), leave w5)
             }
             else Some (Inr \<lparr>child_pid = cpid, child_event_fd = event_fd, state = FORKED,
                             exit_code = exit_code0, term_signal = term_signal0\<rparr>,
                        leave w4)
           })"

text \<open>\<open>ChildProc::~ChildProc()\<close>\<close>

definition ChildProc_dtor :: "ChildProc \<Rightarrow> world \<Rightarrow> (ChildProc \<times> world) option" where
  "ChildProc_dtor this w = do {
     w1 \<leftarrow> (if child_event_fd this \<ge> 0
             then map_option snd (syscall (Close (child_event_fd this)) w)
             else Some w);
     (alive, this2, w2) \<leftarrow> is_alive this w1;
     if alive then terminate True this2 w2 else Some (this2, w2)
   }"

section \<open>The child (\<open>childfn\<close>)\<close>

text \<open>
  \<open>childfn\<close> runs in the new process; its calls are answered there. \<open>child_os\<close> holds
  the results of the calls it makes: \<open>read_value\<close> is the content of \<open>bf\<close> after the
  \<open>read\<close>, \<open>execve_errno\<close> is \<open>None\<close> when \<open>execve\<close> replaces the process image (it
  does not return then) and the error otherwise. After \<open>kill(getpid(), SIGSTOP)\<close> the
  child is stopped; the model describes what it does once it is continued.
\<close>

record child_os =
  prctl_ret :: int
  read_ret :: int
  read_value :: "64 word"
  traceme_ret :: int
  kill_ret :: int
  execve_errno :: "int option"

datatype child_event =
    C_prctl_PDEATHSIG
  | C_perror string
  | C_read int
  | C_close int
  | C_ptrace_TRACEME
  | C_kill_self int
  | C_execve string "string list"

text \<open>
  \<open>Returned n\<close>: \<open>childfn\<close> returns \<open>n\<close>, the exit status of the child.
  \<open>Image_replaced\<close>: \<open>execve\<close> succeeded. \<open>Child_undefined\<close>: the argument vector does
  not fit \<open>char* argv[maxargs]\<close> with its terminator, or is empty (\<open>argv[0]\<close> is then
  the null pointer and is made into a \<open>std::string\<close>); the source's behaviour is
  undefined there.
\<close>

datatype child_outcome = Returned int | Image_replaced | Child_undefined

definition childfn :: "child_os \<Rightarrow> string list \<Rightarrow> int \<Rightarrow> child_event list \<times> child_outcome" where
  "childfn os cmd event_fd =
     (if prctl_ret os \<noteq> 0 then
        ([C_prctl_PDEATHSIG, C_perror ''child: prctl(PR_SET_PDEATHSIG)''], Returned 10)
      else case cmd of
        [] \<Rightarrow> ([C_prctl_PDEATHSIG], Child_undefined)
      | argv0 # _ \<Rightarrow>
          if length cmd \<ge> maxargs then ([C_prctl_PDEATHSIG], Child_undefined)
          else
            let bf = read_value os in
            if read_ret os < 0 then
              ([C_prctl_PDEATHSIG, C_read event_fd,
                C_perror ''child: failed to read 'go' event fd''], Returned 11)
            else
              let pause =
                (if bf = CHILD_PTRACE then
                   [C_ptrace_TRACEME] @
                   (if traceme_ret os < 0 then [C_perror ''child: ptrace(traceme) failed''] else []) @
                   [C_kill_self SIGSTOP] @
                   (if kill_ret os \<noteq> 0 then [C_perror ''child: failed to stop''] else [])
                 else [])
              in case execve_errno os of
                   None \<Rightarrow>
                     ([C_prctl_PDEATHSIG, C_read event_fd, C_close event_fd] @ pause @
                      [C_execve argv0 cmd], Image_replaced)
                 | Some _ \<Rightarrow>
                     ([C_prctl_PDEATHSIG, C_read event_fd, C_close event_fd] @ pause @
                      [C_execve argv0 cmd, C_perror (''child: failed to execve: '' @ argv0)],
                      Returned 12))"

section \<open>Concrete inputs\<close>

text \<open>
  Search paths used in the examples below: \<open>ls\<close> not found, found once, found twice;
  a canonicalisation that sends every candidate to one real path (\<open>/bin\<close> being a link
  to \<open>/usr/bin\<close>), and one that leaves each candidate as it is.
\<close>

definition found_nowhere :: "string \<Rightarrow> string list" where
  "found_nowhere c = []"

definition found_once :: "string \<Rightarrow> string list" where
  "found_once c = [''/bin/ls'']"

definition found_twice :: "string \<Rightarrow> string list" where
  "found_twice c = [''/bin/ls'', ''/usr/bin/ls'']"

definition same_file :: "string \<Rightarrow> string option" where
  "same_file p = Some ''/usr/bin/ls''"

definition own_path :: "string \<Rightarrow> string option" where
  "own_path p = Some p"

text \<open>A command line without a space is its own single token.\<close>

definition one_token :: "string \<Rightarrow> string list" where
  "one_token cmd = [cmd]"

text \<open>
  Replies of the operating system: a call that returns \<open>n\<close>, a call that fails with an
  error number, a \<open>waitpid\<close> that returns a process id and its status. \<open>fresh rs\<close> is a
  world with nothing issued yet and the script \<open>rs\<close>; \<open>tracker st\<close> is the tracker of
  child 100 with start gate 3 in state \<open>st\<close>.
\<close>

definition returns :: "int \<Rightarrow> reply" where
  "returns n = \<lparr>ret = n, err = 0, wstatus_out = 0\<rparr>"

definition fails_with :: "int \<Rightarrow> reply" where
  "fails_with e = \<lparr>ret = - 1, err = e, wstatus_out = 0\<rparr>"

definition reports :: "int \<Rightarrow> 32 word \<Rightarrow> reply" where
  "reports pid s = \<lparr>ret = pid, err = 0, wstatus_out = s\<rparr>"

definition fresh :: "reply list \<Rightarrow> world" where
  "fresh rs = \<lparr>trace = [], script = rs, errno = 0\<rparr>"

definition tracker :: "State \<Rightarrow> ChildProc" where
  "tracker st = \<lparr>child_pid = 100, child_event_fd = 3, state = st,
                  exit_code = - 1, term_signal = - 1\<rparr>"

text \<open>
  A child whose calls all succeed and that reads the token \<open>0x41\<close>, which is neither
  \<open>CHILD_GO\<close> nor \<open>CHILD_PTRACE\<close>.
\<close>

definition token_A :: child_os where
  "token_A = \<lparr>prctl_ret = 0, read_ret = 8, read_value = 0x41, traceme_ret = 0, kill_ret = 0,
              execve_errno = None\<rparr>"

section \<open>Command validation: properties\<close>

lemma uniq_abs_path_fold:
  "fold (\<lambda>path uniq. case ap path of None \<Rightarrow> uniq | Some a \<Rightarrow> insert a uniq) paths U
     = U \<union> {a. \<exists>p \<in> set paths. ap p = Some a}"
  by (induction paths arbitrary: U) (auto split: option.splits)

lemma uniq_abs_path_set:
  "uniq_abs_path ap paths = {a. \<exists>p \<in> set paths. ap p = Some a}"
  by (simp add: uniq_abs_path_def uniq_abs_path_fold)

lemma validate_cmd_no_candidate:
  "rbp c = [] \<Longrightarrow> validate_cmd rbp ap (c # args) = Inl (NotFound c)"
  by (simp add: validate_cmd_def)

lemma validate_cmd_one_candidate:
  "rbp c = [p] \<Longrightarrow>
   validate_cmd rbp ap (c # args) =
     (if maxargs - 1 \<le> length (c # args)
      then Inl (TooManyArguments (length (c # args)) (maxargs - 1))
      else Inr (p # args))"
  by (simp add: validate_cmd_def)

lemma validate_cmd_several:
  "rbp c = p # q # ps \<Longrightarrow>
   validate_cmd rbp ap (c # args) =
     (if card (uniq_abs_path ap (rbp c)) = 1
      then (if maxargs - 1 \<le> length (c # args)
            then Inl (TooManyArguments (length (c # args)) (maxargs - 1))
            else Inr (p # args))
      else Inl (AmbiguousBinary c (length (rbp c))))"
  by (simp add: validate_cmd_def)

section \<open>The tracker: traces and states\<close>

lemma syscall_Some:
  "syscall e w = Some (r, w') \<Longrightarrow>
     trace w' = trace w @ [e] \<and> script w = r # script w' \<and>
     errno w' = (if ret r < 0 then err r else errno w)"
  by (auto simp: syscall_def split: list.splits)

lemma trace_emit [simp]: "trace (emit e w) = trace w @ [e]"
  by (simp add: emit_def)

lemma waitpid_retry_trace:
  "waitpid_retry pid flags w = Some (r, w') \<Longrightarrow>
     \<exists>n. trace w' = trace w @ replicate (Suc n) (Waitpid pid flags)"
proof (induction pid flags w rule: waitpid_retry.induct)
  case (1 pid flags w)
  from "1.prems" obtain r1 w1 where s: "syscall (Waitpid pid flags) w = Some (r1, w1)"
    by (subst (asm) waitpid_retry.simps) (auto split: option.splits)
  show ?case
  proof (cases "ret r1 < 0 \<and> errno w1 = EINTR")
    case True
    with "1.prems" s have "waitpid_retry pid flags w1 = Some (r, w')"
      by (subst (asm) waitpid_retry.simps) simp
    from "1.IH"[OF s refl True this] obtain n
      where "trace w' = trace w1 @ replicate (Suc n) (Waitpid pid flags)" by blast
    with syscall_Some[OF s] have "trace w' = trace w @ replicate (Suc (Suc n)) (Waitpid pid flags)"
      by simp
    then show ?thesis by blast
  next
    case False
    with "1.prems" s have "w' = w1"
      by (subst (asm) waitpid_retry.simps) auto
    with syscall_Some[OF s] have "trace w' = trace w @ replicate (Suc 0) (Waitpid pid flags)"
      by simp
    then show ?thesis by blast
  qed
qed

lemma check_child_trace:
  assumes "check_child block this w = Some (this', w')"
  shows "\<exists>n logs. trace w' = trace w @ replicate (Suc n) (Waitpid (child_pid this) (if block then 0 else WNOHANG)) @ logs
            \<and> (\<forall>e \<in> set logs. is_log e)"
proof -
  from assms obtain r w1 where
    wr: "waitpid_retry (child_pid this) (if block then 0 else WNOHANG) w = Some (r, w1)"
    and tr: "trace w' = trace w1 \<or> trace w' = trace w1 @ [Log_bug]
               \<or> trace w' = trace w1 @ [Log_warning (child_pid this) (errno w1)]"
    by (auto simp: check_child_def Let_def split: Option.bind_splits if_splits)
  from waitpid_retry_trace[OF wr] obtain n where
    n: "trace w1 = trace w @ replicate (Suc n) (Waitpid (child_pid this) (if block then 0 else WNOHANG))"
    by blast
  from tr consider "trace w' = trace w1 @ []" | "trace w' = trace w1 @ [Log_bug]"
    | "trace w' = trace w1 @ [Log_warning (child_pid this) (errno w1)]" by auto
  then show ?thesis
  proof cases
    case 1 with n show ?thesis by (intro exI[of _ n] exI[of _ "[]"]) simp
  next
    case 2 with n show ?thesis by (intro exI[of _ n] exI[of _ "[Log_bug]"]) simp
  next
    case 3 with n show ?thesis
      by (intro exI[of _ n] exI[of _ "[Log_warning (child_pid this) (errno w1)]"]) simp
  qed
qed

lemma check_wstatus_fields:
  "child_pid (check_wstatus s this) = child_pid this"
  "child_event_fd (check_wstatus s this) = child_event_fd this"
  "state (check_wstatus s this) = state this \<or> state (check_wstatus s this) = DIED"
  by (auto simp: check_wstatus_def)

lemma check_child_result:
  assumes "check_child block this w = Some (this', w')"
  shows "this' = this \<or> this' = this\<lparr>state := DIED\<rparr> \<or> (\<exists>s. this' = check_wstatus s this)"
  using assms
  by (auto simp: check_child_def Let_def split: Option.bind_splits if_splits)

lemma check_child_fields:
  assumes "check_child block this w = Some (this', w')"
  shows "child_pid this' = child_pid this" "child_event_fd this' = child_event_fd this"
    "state this' = state this \<or> state this' = DIED"
  using check_child_result[OF assms] check_wstatus_fields[of _ this]
  by auto

lemma check_child_dead:
  assumes "check_child block this w = Some (this', w')" "state this = DIED"
  shows "state this' = DIED"
  using check_child_fields(3)[OF assms(1)] assms(2) by auto

lemma terminate_Some:
  assumes "terminate force this w = Some (this', w')"
  shows "(check_child False this w = Some (this', w') \<and> state this' = DIED)
       \<or> (\<exists>this1 w1 w2 r3 w3 w4.
            check_child False this w = Some (this1, w1) \<and> state this1 \<noteq> DIED \<and>
            w2 = (if child_pid this \<le> 1 then emit Log_bug w1 else w1) \<and>
            syscall (Kill (child_pid this) (if force then SIGKILL else SIGTERM)) w2 = Some (r3, w3) \<and>
            (if state this1 = PTRACE_PAUSE
             then (\<exists>r4. syscall (Ptrace PTRACE_DETACH (child_pid this)) w3 = Some (r4, w4))
             else w4 = w3) \<and>
            check_child force this1 w4 = Some (this', w'))"
proof -
  from assms obtain this1 w1 where c1: "check_child False this w = Some (this1, w1)"
    by (auto simp: terminate_def split: Option.bind_splits)
  note f = check_child_fields[OF c1]
  show ?thesis
  proof (cases "state this1 = DIED")
    case True
    with assms c1 show ?thesis by (simp add: terminate_def died_def)
  next
    case False
    define w2 where "w2 = (if child_pid this1 \<le> 1 then emit Log_bug w1 else w1)"
    define sig where "sig = (if force then SIGKILL else SIGTERM)"
    have t: "terminate force this w =
        syscall (Kill (child_pid this1) sig) w2 \<bind>
          (\<lambda>(_, w3). (if state this1 = PTRACE_PAUSE
                  then map_option snd (syscall (Ptrace PTRACE_DETACH (child_pid this1)) w3)
                  else Some w3) \<bind> check_child force this1)"
      using c1 False by (simp add: terminate_def died_def Let_def w2_def sig_def)
    from assms[unfolded t] obtain r3 w3 where
      k: "syscall (Kill (child_pid this1) sig) w2 = Some (r3, w3)" and
      rest: "(if state this1 = PTRACE_PAUSE
                  then map_option snd (syscall (Ptrace PTRACE_DETACH (child_pid this1)) w3)
                  else Some w3) \<bind> check_child force this1 = Some (this', w')"
      by (auto split: Option.bind_splits)
    from rest obtain w4 where
      d: "(if state this1 = PTRACE_PAUSE
                  then map_option snd (syscall (Ptrace PTRACE_DETACH (child_pid this1)) w3)
                  else Some w3) = Some w4" and
      c2: "check_child force this1 w4 = Some (this', w')"
      by (auto split: Option.bind_splits)
    from d have d': "if state this1 = PTRACE_PAUSE
             then (\<exists>r4. syscall (Ptrace PTRACE_DETACH (child_pid this)) w3 = Some (r4, w4))
             else w4 = w3"
      using f(1) by (auto split: if_splits)
    have w2: "w2 = (if child_pid this \<le> 1 then emit Log_bug w1 else w1)"
      using f(1) by (simp add: w2_def)
    from c1 False w2 k d' c2 f(1) show ?thesis
      unfolding sig_def by (intro disjI2 exI[of _ this1] exI[of _ w1] exI[of _ w2] exI[of _ r3] exI[of _ w3] exI[of _ w4]) simp
  qed
qed

lemma is_log_not_call:
  "is_log e \<Longrightarrow> \<not> is_Kill e \<and> \<not> is_Ptrace e \<and> \<not> is_Waitpid e"
  by (cases e) simp_all

lemma child_stack_allocated_append:
  "child_stack_allocated (evs @ [Alloc_child_args, Alloc_child_stack n, Eventfd, Clone args fd])"
  "\<not> child_stack_allocated (evs @ [Alloc_child_args, Alloc_child_stack n, Eventfd, Clone args fd,
        Free_child_stack, Free_child_args])"
  by (simp_all add: child_stack_allocated_def)

text \<open>
  Returning: the loop of \<open>check_child\<close> ends as soon as the operating system gives an
  answer that is not an interrupted call.
\<close>

lemma waitpid_retry_returns:
  "\<exists>r \<in> set (script w). \<not> (ret r < 0 \<and> err r = EINTR) \<Longrightarrow>
   \<exists>r w'. waitpid_retry pid flags w = Some (r, w')"
proof (induction pid flags w rule: waitpid_retry.induct)
  case (1 pid flags w)
  from "1.prems" obtain r1 rs where sc: "script w = r1 # rs" by (cases "script w") auto
  define w1 where "w1 = \<lparr>trace = trace w @ [Waitpid pid flags], script = rs,
                          errno = (if ret r1 < 0 then err r1 else errno w)\<rparr>"
  have s: "syscall (Waitpid pid flags) w = Some (r1, w1)"
    by (simp add: syscall_def sc w1_def)
  show ?case
  proof (cases "ret r1 < 0 \<and> errno w1 = EINTR")
    case True
    then have "ret r1 < 0 \<and> err r1 = EINTR" by (auto simp: w1_def)
    with "1.prems" sc have "\<exists>r \<in> set (script w1). \<not> (ret r < 0 \<and> err r = EINTR)"
      by (auto simp: w1_def)
    from "1.IH"[OF s refl True this] s True show ?thesis
      by (subst waitpid_retry.simps) simp
  next
    case False
    with s show ?thesis by (subst waitpid_retry.simps) auto
  qed
qed

lemma check_child_returns:
  assumes "\<exists>r \<in> set (script w). \<not> (ret r < 0 \<and> err r = EINTR)"
  shows "\<exists>this' w'. check_child block this w = Some (this', w')"
proof -
  from waitpid_retry_returns[OF assms] obtain r w1 where
    "waitpid_retry (child_pid this) (if block then 0 else WNOHANG) w = Some (r, w1)" by blast
  then show ?thesis
    by (cases block) (auto simp: check_child_def Let_def)
qed

lemma terminate_dead_returns:
  assumes "state this = DIED" and "\<exists>r \<in> set (script w). \<not> (ret r < 0 \<and> err r = EINTR)"
  shows "\<exists>this' w'. terminate force this w = Some (this', w')"
proof -
  from check_child_returns[OF assms(2)] obtain this1 w1 where
    c: "check_child False this w = Some (this1, w1)" by blast
  from check_child_dead[OF c assms(1)] c show ?thesis
    by (simp add: terminate_def died_def)
qed

text \<open>
  What the loop of \<open>check_child\<close> consumes: interrupted calls, then the reply that decides
  the new state of the tracker.
\<close>

lemma syscall_returns:
  "script w = r # rs \<Longrightarrow>
   syscall e w = Some (r, \<lparr>trace = trace w @ [e], script = rs,
                           errno = (if ret r < 0 then err r else errno w)\<rparr>)"
  by (simp add: syscall_def)

lemma script_emit [simp]: "script (emit e w) = script w"
  by (simp add: emit_def)

lemma waitpid_retry_consumed:
  "waitpid_retry pid flags w = Some (r, w') \<Longrightarrow>
     \<exists>pre. script w = pre @ r # script w' \<and> (\<forall>q \<in> set pre. ret q < 0 \<and> err q = EINTR)
          \<and> \<not> (ret r < 0 \<and> err r = EINTR) \<and> (ret r < 0 \<longrightarrow> errno w' = err r)"
proof (induction pid flags w rule: waitpid_retry.induct)
  case (1 pid flags w)
  from "1.prems" obtain r1 w1 where s: "syscall (Waitpid pid flags) w = Some (r1, w1)"
    by (subst (asm) waitpid_retry.simps) (auto split: option.splits)
  note ss = syscall_Some[OF s]
  show ?case
  proof (cases "ret r1 < 0 \<and> errno w1 = EINTR")
    case True
    with "1.prems" s have "waitpid_retry pid flags w1 = Some (r, w')"
      by (subst (asm) waitpid_retry.simps) simp
    from "1.IH"[OF s refl True this] obtain pre where
      p: "script w1 = pre @ r # script w'" "\<forall>q \<in> set pre. ret q < 0 \<and> err q = EINTR"
         "\<not> (ret r < 0 \<and> err r = EINTR)" "ret r < 0 \<longrightarrow> errno w' = err r" by blast
    from True ss have "ret r1 < 0 \<and> err r1 = EINTR" by auto
    with p ss show ?thesis
      by (intro exI[of _ "r1 # pre"]) simp
  next
    case False
    with "1.prems" s have e: "w' = w1" "r = r1"
      by (subst (asm) waitpid_retry.simps; auto)+
    with ss False show ?thesis
      by (intro exI[of _ "[]"]) auto
  qed
qed

lemma check_child_exact:
  assumes "check_child block this w = Some (this', w')"
  shows "\<exists>pre r. script w = pre @ r # script w'
           \<and> (\<forall>q \<in> set pre. ret q < 0 \<and> err q = EINTR)
           \<and> \<not> (ret r < 0 \<and> err r = EINTR)
           \<and> this' = (if 0 < ret r then check_wstatus (wstatus_out r) this
                       else if ret r = 0 then this
                       else if err r = EINVAL then check_wstatus 0 this
                       else this\<lparr>state := DIED\<rparr>)"
proof -
  from assms obtain r w1 where
    wr: "waitpid_retry (child_pid this) (if block then 0 else WNOHANG) w = Some (r, w1)"
    and res: "this' = (if ret r < 0 \<and> errno w1 \<noteq> EINVAL then this\<lparr>state := DIED\<rparr>
                      else if ret r = 0 then this
                      else check_wstatus (if ret r > 0 then wstatus_out r else 0) this)"
    and sc: "script w' = script w1"
    by (auto simp: check_child_def Let_def split: Option.bind_splits if_splits)
  from waitpid_retry_consumed[OF wr] obtain pre where
    p: "script w = pre @ r # script w1" "\<forall>q \<in> set pre. ret q < 0 \<and> err q = EINTR"
       "\<not> (ret r < 0 \<and> err r = EINTR)" "ret r < 0 \<longrightarrow> errno w1 = err r" by blast
  from res p(4) have "this' = (if 0 < ret r then check_wstatus (wstatus_out r) this
                       else if ret r = 0 then this
                       else if err r = EINVAL then check_wstatus 0 this
                       else this\<lparr>state := DIED\<rparr>)"
    by auto
  with p sc show ?thesis by auto
qed

text \<open>
  \<open>terminate\<close> after a first poll that does not find the child dead: the signal, the
  detach in state \<open>PTRACE_PAUSE\<close>, and \<open>check_child(force)\<close>.
\<close>

lemma terminate_alive:
  assumes "check_child False this w = Some (this1, w1)" and "state this1 \<noteq> DIED"
  shows "terminate force this w =
           syscall (Kill (child_pid this1) (if force then SIGKILL else SIGTERM))
                   (if child_pid this1 \<le> 1 then emit Log_bug w1 else w1) \<bind>
             (\<lambda>(_, w3). (if state this1 = PTRACE_PAUSE
                  then map_option snd (syscall (Ptrace PTRACE_DETACH (child_pid this1)) w3)
                  else Some w3) \<bind> check_child force this1)"
  using assms by (simp add: terminate_def died_def Let_def)

lemma terminate_alive_trace:
  assumes c1: "check_child False this w = Some (this1, w1)" and nd: "state this1 \<noteq> DIED"
    and t: "terminate force this w = Some (this', w')"
  shows "\<exists>n logs. trace w' = trace w1 @ (if child_pid this \<le> 1 then [Log_bug] else [])
              @ Kill (child_pid this) (if force then SIGKILL else SIGTERM)
              # (if state this1 = PTRACE_PAUSE then [Ptrace PTRACE_DETACH (child_pid this)] else [])
              @ replicate (Suc n) (Waitpid (child_pid this) (if force then 0 else WNOHANG)) @ logs
            \<and> (\<forall>e\<in>set logs. is_log e)"
proof -
  define w2 where "w2 = (if child_pid this \<le> 1 then emit Log_bug w1 else w1)"
  have t2: "trace w2 = trace w1 @ (if child_pid this \<le> 1 then [Log_bug] else [])"
    by (simp add: w2_def)
  note f1 = check_child_fields(1)[OF c1]
  from t[unfolded terminate_alive[OF c1 nd] f1] obtain r3 w3 where
    k: "syscall (Kill (child_pid this) (if force then SIGKILL else SIGTERM)) w2 = Some (r3, w3)" and
    rest: "(if state this1 = PTRACE_PAUSE
                  then map_option snd (syscall (Ptrace PTRACE_DETACH (child_pid this)) w3)
                  else Some w3) \<bind> check_child force this1 = Some (this', w')"
    unfolding w2_def by (auto split: Option.bind_splits)
  from rest obtain w4 where
    d: "(if state this1 = PTRACE_PAUSE
                  then map_option snd (syscall (Ptrace PTRACE_DETACH (child_pid this)) w3)
                  else Some w3) = Some w4" and
    c2: "check_child force this1 w4 = Some (this', w')"
    by (auto split: Option.bind_splits)
  from syscall_Some[OF k]
  have t3: "trace w3 = trace w2 @ [Kill (child_pid this) (if force then SIGKILL else SIGTERM)]"
    by simp
  from d have t4: "trace w4 = trace w3 @
      (if state this1 = PTRACE_PAUSE then [Ptrace PTRACE_DETACH (child_pid this)] else [])"
    by (auto dest: syscall_Some split: if_splits)
  from check_child_trace[OF c2] check_child_fields(1)[OF c1] obtain n logs where
    t5: "trace w' = trace w4 @
           replicate (Suc n) (Waitpid (child_pid this) (if force then 0 else WNOHANG)) @ logs"
    and l5: "\<forall>e\<in>set logs. is_log e" by auto
  from t2 t3 t4 t5 l5 show ?thesis
    by (intro exI[of _ n] exI[of _ logs]) simp
qed

lemma terminate_alive_returns:
  assumes c1: "check_child False this w = Some (this1, w1)" and nd: "state this1 \<noteq> DIED"
    and en: "\<exists>r \<in> set (drop (if state this1 = PTRACE_PAUSE then 2 else 1) (script w1)).
               \<not> (ret r < 0 \<and> err r = EINTR)"
  shows "\<exists>this' w'. terminate force this w = Some (this', w')"
proof -
  define w2 where "w2 = (if child_pid this \<le> 1 then emit Log_bug w1 else w1)"
  have s2: "script w2 = script w1" by (simp add: w2_def)
  from en obtain r3 rs where sc: "script w1 = r3 # rs"
    by (cases "script w1") auto
  define w3 where "w3 = \<lparr>trace = trace w2 @ [Kill (child_pid this) (if force then SIGKILL else SIGTERM)],
                          script = rs, errno = (if ret r3 < 0 then err r3 else errno w2)\<rparr>"
  have k: "syscall (Kill (child_pid this) (if force then SIGKILL else SIGTERM)) w2 = Some (r3, w3)"
    unfolding w3_def using sc s2 by (intro syscall_returns) simp
  have "\<exists>w4. (if state this1 = PTRACE_PAUSE
                  then map_option snd (syscall (Ptrace PTRACE_DETACH (child_pid this)) w3)
                  else Some w3) = Some w4
            \<and> (\<exists>r \<in> set (script w4). \<not> (ret r < 0 \<and> err r = EINTR))"
  proof (cases "state this1 = PTRACE_PAUSE")
    case False
    with en sc show ?thesis by (simp add: w3_def)
  next
    case True
    with en sc obtain r4 rs' where sc': "rs = r4 # rs'"
      by (cases rs) auto
    have "syscall (Ptrace PTRACE_DETACH (child_pid this)) w3
            = Some (r4, \<lparr>trace = trace w3 @ [Ptrace PTRACE_DETACH (child_pid this)], script = rs',
                           errno = (if ret r4 < 0 then err r4 else errno w3)\<rparr>)"
      using sc' by (intro syscall_returns) (simp add: w3_def)
    with True en sc sc' show ?thesis by simp
  qed
  then obtain w4 where d: "(if state this1 = PTRACE_PAUSE
                  then map_option snd (syscall (Ptrace PTRACE_DETACH (child_pid this)) w3)
                  else Some w3) = Some w4"
    and e4: "\<exists>r \<in> set (script w4). \<not> (ret r < 0 \<and> err r = EINTR)" by blast
  from check_child_returns[OF e4, of force this1] obtain this' w' where
    "check_child force this1 w4 = Some (this', w')" by blast
  with k d have "terminate force this w = Some (this', w')"
    unfolding terminate_alive[OF c1 nd] check_child_fields(1)[OF c1] w2_def[symmetric] by simp
  then show ?thesis by blast
qed

section \<open>Launch: the stack region and the start gate (C1, C2)\<close>

text \<open>
  C1, as the claim states it, fails: a launch that succeeds, with the child 100 forked, has
  released the stack region when the constructor returns.
\<close>

theorem ctor_stack_counterexample:
  "ChildProc_ctor one_token found_once own_path (- 1) (- 1) ''ls'' (fresh [returns 3, returns 100])
     = Some (Inr (tracker FORKED),
             \<lparr>trace = [Alloc_child_args, Alloc_child_stack STACK_SIZE, Eventfd,
                       Clone [''/bin/ls''] 3, Free_child_stack, Free_child_args],
              script = [], errno = 0\<rparr>)
   \<and> \<not> child_stack_allocated [Alloc_child_args, Alloc_child_stack STACK_SIZE, Eventfd,
                       Clone [''/bin/ls''] 3, Free_child_stack, Free_child_args]"
  by (simp add: ChildProc_ctor_def one_token_def found_once_def validate_cmd_def maxargs_def
        fresh_def returns_def syscall_def emit_def tracker_def child_stack_allocated_def)

text \<open>
  C1, amended. Every successful launch allocates the stack region of \<open>STACK_SIZE\<close> bytes
  before \<open>clone\<close>, holds it during \<open>clone\<close>, and releases it when the constructor
  returns: the region belongs to the constructor call, and the returned tracker (state
  \<open>FORKED\<close>, a positive process id) holds no reference to it.
\<close>

theorem ctor_stack_lifetime:
  assumes "ChildProc_ctor sp rbp ap e0 t0 cmd w = Some (Inr this, w')"
  shows "\<exists>args. validate_cmd rbp ap (sp cmd) = Inr args
       \<and> trace w' = trace w @ [Alloc_child_args, Alloc_child_stack STACK_SIZE, Eventfd,
                                Clone args (child_event_fd this), Free_child_stack, Free_child_args]
       \<and> child_stack_allocated (trace w @ [Alloc_child_args, Alloc_child_stack STACK_SIZE, Eventfd,
                                Clone args (child_event_fd this)])
       \<and> \<not> child_stack_allocated (trace w')
       \<and> state this = FORKED \<and> 0 < child_pid this"
proof -
  from assms obtain args where v: "validate_cmd rbp ap (sp cmd) = Inr args"
    by (cases "validate_cmd rbp ap (sp cmd)") (auto simp: ChildProc_ctor_def Let_def)
  define w2 where "w2 = emit (Alloc_child_stack STACK_SIZE) (emit Alloc_child_args w)"
  have t2: "trace w2 = trace w @ [Alloc_child_args, Alloc_child_stack STACK_SIZE]"
    by (simp add: w2_def)
  from assms v obtain r3 w3 where e: "syscall Eventfd w2 = Some (r3, w3)"
    by (auto simp: ChildProc_ctor_def Let_def w2_def split: Option.bind_splits)
  from assms v e obtain r4 w4 where c: "syscall (Clone args (ret r3)) w3 = Some (r4, w4)"
    by (auto simp: ChildProc_ctor_def Let_def w2_def split: Option.bind_splits)
  from assms v e c have pos: "0 < ret r4"
    and obj: "this = \<lparr>child_pid = ret r4, child_event_fd = ret r3, state = FORKED,
                       exit_code = e0, term_signal = t0\<rparr>"
    and w': "w' = emit Free_child_args (emit Free_child_stack w4)"
    by (auto simp: ChildProc_ctor_def Let_def w2_def split: Option.bind_splits if_splits)
  from syscall_Some[OF e] syscall_Some[OF c] t2 w' obj
  have t: "trace w' = trace w @ [Alloc_child_args, Alloc_child_stack STACK_SIZE, Eventfd,
                                Clone args (child_event_fd this), Free_child_stack, Free_child_args]"
    by simp
  from v t pos obj child_stack_allocated_append[of "trace w" STACK_SIZE args "child_event_fd this"]
  show ?thesis by simp
qed

theorem ctor_stack_lifetime_witness:
  "ChildProc_ctor one_token found_once own_path (- 1) (- 1) ''ls'' (fresh [returns 3, returns 100])
     = Some (Inr (tracker FORKED),
             \<lparr>trace = [Alloc_child_args, Alloc_child_stack STACK_SIZE, Eventfd,
                       Clone [''/bin/ls''] 3, Free_child_stack, Free_child_args],
              script = [], errno = 0\<rparr>)
   \<and> child_stack_allocated [Alloc_child_args, Alloc_child_stack STACK_SIZE, Eventfd,
                       Clone [''/bin/ls''] 3]
   \<and> state (tracker FORKED) = FORKED"
proof -
  have h: "ChildProc_ctor one_token found_once own_path (- 1) (- 1) ''ls'' (fresh [returns 3, returns 100])
     = Some (Inr (tracker FORKED),
             \<lparr>trace = [Alloc_child_args, Alloc_child_stack STACK_SIZE, Eventfd,
                       Clone [''/bin/ls''] 3, Free_child_stack, Free_child_args],
              script = [], errno = 0\<rparr>)"
    by (simp add: ChildProc_ctor_def one_token_def found_once_def validate_cmd_def maxargs_def
        fresh_def returns_def syscall_def emit_def tracker_def)
  have c: "child_stack_allocated [Alloc_child_args, Alloc_child_stack STACK_SIZE, Eventfd,
                       Clone [''/bin/ls''] 3]"
    by (simp add: child_stack_allocated_def)
  from ctor_stack_lifetime[OF h] have "state (tracker FORKED) = FORKED" by blast
  with h c show ?thesis by simp
qed

text \<open>
  C2. \<open>eventfd\<close> fails with error 24 (\<open>EMFILE\<close>) and \<open>clone\<close> then succeeds: the
  constructor reports nothing. It returns a tracker in state \<open>FORKED\<close> whose gate is
  \<open>- 1\<close>, and the child 100 exists.
\<close>

theorem ctor_eventfd_failure:
  "ChildProc_ctor one_token found_once own_path (- 1) (- 1) ''ls''
       (fresh [fails_with 24, returns 100])
     = Some (Inr \<lparr>child_pid = 100, child_event_fd = - 1, state = FORKED,
                  exit_code = - 1, term_signal = - 1\<rparr>,
             \<lparr>trace = [Alloc_child_args, Alloc_child_stack STACK_SIZE, Eventfd,
                       Clone [''/bin/ls''] (- 1), Free_child_stack, Free_child_args],
              script = [], errno = 24\<rparr>)"
  by (simp add: ChildProc_ctor_def one_token_def found_once_def validate_cmd_def maxargs_def
        fresh_def returns_def fails_with_def syscall_def emit_def Let_def)

text \<open>The sibling path: a failing \<open>clone\<close> closes the gate and throws the system error.\<close>

lemma ctor_clone_failure:
  "ChildProc_ctor one_token found_once own_path (- 1) (- 1) ''ls''
       (fresh [returns 3, fails_with 11, returns 0])
     = Some (Inl (SystemError 11 Failed_to_clone_child),
             \<lparr>trace = [Alloc_child_args, Alloc_child_stack STACK_SIZE, Eventfd,
                       Clone [''/bin/ls''] 3, Close 3, Free_child_stack, Free_child_args],
              script = [], errno = 11\<rparr>)"
  by (simp add: ChildProc_ctor_def one_token_def found_once_def validate_cmd_def maxargs_def
        fresh_def returns_def fails_with_def syscall_def emit_def Let_def)

section \<open>Pause at exec: the abort paths of \<open>run\<close> (C3)\<close>

text \<open>
  C3. \<open>run(true)\<close> where the first wait reports the traced child stopped by \<open>SIGTERM\<close>
  instead of \<open>SIGSTOP\<close> (status \<open>0x0f7f\<close>): \<open>report_status\<close> throws before the \<open>try\<close>
  block.
  No \<open>PTRACE_DETACH\<close> and no \<open>kill\<close> is issued, the tracker stays \<open>PTRACE_PAUSE\<close> and
  the child stays stopped.
\<close>

theorem run_first_wait_unexpected_status:
  "run True 0 (tracker FORKED) (fresh [returns 0, returns 8, returns 0, reports 100 0x0f7f])
     = Some (Inl (UnexpectedStatus (StoppedUnexpectedly SIGTERM)), tracker PTRACE_PAUSE,
             \<lparr>trace = [Waitpid 100 WNOHANG, Write 3 CHILD_PTRACE, Close 3, Waitpid 100 0],
              script = [], errno = 0\<rparr>)"
  by code_simp

theorem run_first_wait_unexpected_status_witness:
  "map_option fst
     (run True 0 (tracker FORKED) (fresh [returns 0, returns 8, returns 0, reports 100 0x0f7f]))
     = Some (Inl (UnexpectedStatus (StoppedUnexpectedly SIGTERM)))
   \<and> map_option snd
     (run True 0 (tracker FORKED) (fresh [returns 0, returns 8, returns 0, reports 100 0x0f7f]))
     = Some (tracker PTRACE_PAUSE,
             \<lparr>trace = [Waitpid 100 WNOHANG, Write 3 CHILD_PTRACE, Close 3, Waitpid 100 0],
              script = [], errno = 0\<rparr>)"
  using run_first_wait_unexpected_status by simp

text \<open>
  The sibling path: an unexpected status at the second wait (a plain \<open>SIGTRAP\<close> stop,
  \<open>0x057f\<close>) is thrown inside the \<open>try\<close> block and caught by the handler, which detaches
  and calls \<open>terminate(true)\<close>.
\<close>

lemma run_second_wait_unexpected_status:
  "run True 0 (tracker FORKED)
      (fresh [returns 0, returns 8, returns 0, reports 100 0x137f, returns 0, returns 0,
              reports 100 0x057f, returns 0, returns 0, returns 0, returns 0, reports 100 9])
     = Some (Inl (SystemError 0 Failed_to_write_go_event_fd), (tracker DIED)\<lparr>term_signal := 9\<rparr>,
             \<lparr>trace = [Waitpid 100 WNOHANG, Write 3 CHILD_PTRACE, Close 3, Waitpid 100 0,
                       Ptrace PTRACE_SETOPTIONS 100, Ptrace PTRACE_CONT 100, Waitpid 100 0,
                       Ptrace PTRACE_DETACH 100,
                       Waitpid 100 WNOHANG, Kill 100 SIGKILL, Ptrace PTRACE_DETACH 100,
                       Waitpid 100 0],
              script = [], errno = 0\<rparr>)"
  by code_simp

section \<open>Termination (C4, C5)\<close>

text \<open>
  C4, as the claim states it, fails for \<open>force = false\<close>: the child is running, \<open>SIGTERM\<close>
  is sent, and the wait that follows is a poll (\<open>WNOHANG\<close> is not 0) that finds nothing
  to reap. \<open>terminate\<close> returns with the tracker still \<open>RUNNING\<close>.
\<close>

theorem terminate_graceful_counterexample:
  "terminate False (tracker RUNNING) (fresh [returns 0, returns 0, returns 0])
     = Some (tracker RUNNING,
             \<lparr>trace = [Waitpid 100 WNOHANG, Kill 100 SIGTERM, Waitpid 100 WNOHANG],
              script = [], errno = 0\<rparr>)
   \<and> state (tracker RUNNING) \<noteq> DIED \<and> WNOHANG \<noteq> 0"
  by code_simp

text \<open>
  C4, amended. Take a call of \<open>terminate(force)\<close> whose first poll returns and does not find
  the child dead. The call returns as soon as \<open>kill\<close>, the detach (in state
  \<open>PTRACE_PAUSE\<close>) and the final wait are answered, an interrupted wait being repeated.
  Whenever it returns it has sent the signal (\<open>SIGKILL\<close> when \<open>force\<close>, \<open>SIGTERM\<close>
  otherwise), detached when the state was \<open>PTRACE_PAUSE\<close>, and then waited for the child
  once more as the last thing it does apart from logging. That last wait is blocking
  (options 0) when \<open>force\<close> is true and a poll (\<open>WNOHANG\<close>) when \<open>force\<close> is false.
\<close>

theorem terminate_final_wait:
  assumes "check_child False this w = Some (this1, w1)" and "state this1 \<noteq> DIED"
  shows "((\<exists>r \<in> set (drop (if state this1 = PTRACE_PAUSE then 2 else 1) (script w1)).
             \<not> (ret r < 0 \<and> err r = EINTR)) \<longrightarrow>
            (\<exists>this' w'. terminate force this w = Some (this', w')))
       \<and> (\<forall>this' w'. terminate force this w = Some (this', w') \<longrightarrow>
            (\<exists>pre n logs.
               trace w' = trace w @ pre
                 @ Kill (child_pid this) (if force then SIGKILL else SIGTERM)
                 # (if state this = PTRACE_PAUSE then [Ptrace PTRACE_DETACH (child_pid this)] else [])
                 @ replicate (Suc n) (Waitpid (child_pid this) (if force then 0 else WNOHANG)) @ logs
               \<and> (\<forall>e\<in>set pre. \<not> is_Kill e) \<and> (\<forall>e\<in>set logs. is_log e)))"
proof (intro conjI impI allI)
  assume "\<exists>r \<in> set (drop (if state this1 = PTRACE_PAUSE then 2 else 1) (script w1)).
             \<not> (ret r < 0 \<and> err r = EINTR)"
  with assms show "\<exists>this' w'. terminate force this w = Some (this', w')"
    by (rule terminate_alive_returns)
next
  fix this' w'
  assume t: "terminate force this w = Some (this', w')"
  from check_child_fields(3)[OF assms(1)] assms(2) have st: "state this1 = state this" by auto
  from check_child_trace[OF assms(1)] obtain m logs1 where
    t1: "trace w1 = trace w @ replicate (Suc m) (Waitpid (child_pid this) WNOHANG) @ logs1"
    and l1: "\<forall>e\<in>set logs1. is_log e" by auto
  from terminate_alive_trace[OF assms t] obtain n logs where
    t2: "trace w' = trace w1 @ (if child_pid this \<le> 1 then [Log_bug] else [])
              @ Kill (child_pid this) (if force then SIGKILL else SIGTERM)
              # (if state this1 = PTRACE_PAUSE then [Ptrace PTRACE_DETACH (child_pid this)] else [])
              @ replicate (Suc n) (Waitpid (child_pid this) (if force then 0 else WNOHANG)) @ logs"
    and l2: "\<forall>e\<in>set logs. is_log e" by blast
  define pre where "pre = replicate (Suc m) (Waitpid (child_pid this) WNOHANG) @ logs1
                            @ (if child_pid this \<le> 1 then [Log_bug] else [])"
  have p: "\<forall>e\<in>set pre. \<not> is_Kill e"
    using l1 by (auto simp: pre_def dest: is_log_not_call)
  from t1 t2 st have "trace w' = trace w @ pre
                 @ Kill (child_pid this) (if force then SIGKILL else SIGTERM)
                 # (if state this = PTRACE_PAUSE then [Ptrace PTRACE_DETACH (child_pid this)] else [])
                 @ replicate (Suc n) (Waitpid (child_pid this) (if force then 0 else WNOHANG)) @ logs"
    by (simp add: pre_def)
  with p l2 show "\<exists>pre n logs.
               trace w' = trace w @ pre
                 @ Kill (child_pid this) (if force then SIGKILL else SIGTERM)
                 # (if state this = PTRACE_PAUSE then [Ptrace PTRACE_DETACH (child_pid this)] else [])
                 @ replicate (Suc n) (Waitpid (child_pid this) (if force then 0 else WNOHANG)) @ logs
               \<and> (\<forall>e\<in>set pre. \<not> is_Kill e) \<and> (\<forall>e\<in>set logs. is_log e)"
    by blast
qed

theorem terminate_final_wait_witness:
  "check_child False (tracker RUNNING) (fresh [returns 0, returns 0, reports 100 9])
     = Some (tracker RUNNING,
             \<lparr>trace = [Waitpid 100 WNOHANG], script = [returns 0, reports 100 9], errno = 0\<rparr>)
   \<and> state (tracker RUNNING) \<noteq> DIED
   \<and> terminate True (tracker RUNNING) (fresh [returns 0, returns 0, reports 100 9])
     = Some ((tracker DIED)\<lparr>term_signal := 9\<rparr>,
             \<lparr>trace = [Waitpid 100 WNOHANG, Kill 100 SIGKILL, Waitpid 100 0],
              script = [], errno = 0\<rparr>)
   \<and> (\<exists>this' w'. terminate True (tracker RUNNING) (fresh [returns 0, returns 0, reports 100 9])
          = Some (this', w'))"
proof -
  have c: "check_child False (tracker RUNNING) (fresh [returns 0, returns 0, reports 100 9])
     = Some (tracker RUNNING,
             \<lparr>trace = [Waitpid 100 WNOHANG], script = [returns 0, reports 100 9], errno = 0\<rparr>)"
    by code_simp
  have nd: "state (tracker RUNNING) \<noteq> DIED" by (simp add: tracker_def)
  have h: "terminate True (tracker RUNNING) (fresh [returns 0, returns 0, reports 100 9])
     = Some ((tracker DIED)\<lparr>term_signal := 9\<rparr>,
             \<lparr>trace = [Waitpid 100 WNOHANG, Kill 100 SIGKILL, Waitpid 100 0],
              script = [], errno = 0\<rparr>)"
    by code_simp
  have en: "\<exists>r \<in> set (drop (if state (tracker RUNNING) = PTRACE_PAUSE then 2 else 1)
                 (script \<lparr>trace = [Waitpid 100 WNOHANG], script = [returns 0, reports 100 9],
                           errno = 0\<rparr>)).
               \<not> (ret r < 0 \<and> err r = EINTR)"
    by (simp add: tracker_def reports_def)
  from terminate_final_wait[OF c nd, of True] en
  have "\<exists>this' w'. terminate True (tracker RUNNING) (fresh [returns 0, returns 0, reports 100 9])
          = Some (this', w')" by blast
  with c nd h show ?thesis by blast
qed

text \<open>
  C5, as the claim states it, fails: in state \<open>PTRACE_PAUSE\<close> the \<open>kill\<close> is the second
  call and \<open>PTRACE_DETACH\<close> the third.
\<close>

theorem terminate_paused_counterexample:
  "terminate True (tracker PTRACE_PAUSE) (fresh [returns 0, returns 0, returns 0, reports 100 9])
     = Some ((tracker DIED)\<lparr>term_signal := 9\<rparr>,
             \<lparr>trace = [Waitpid 100 WNOHANG, Kill 100 SIGKILL, Ptrace PTRACE_DETACH 100,
                       Waitpid 100 0],
              script = [], errno = 0\<rparr>)"
  by code_simp

text \<open>
  C5, amended. Take a call of \<open>terminate\<close> in state \<open>PTRACE_PAUSE\<close> whose first poll
  returns and does not find the child dead. The call returns as soon as \<open>kill\<close>, the
  detach and the final wait are answered. Whenever it returns, the signal has been sent first
  and \<open>PTRACE_DETACH\<close> is the very next call; no other signal or \<open>ptrace\<close> call is made.
\<close>

theorem terminate_paused_kill_then_detach:
  assumes "state this = PTRACE_PAUSE"
    and "check_child False this w = Some (this1, w1)" and "state this1 \<noteq> DIED"
  shows "((\<exists>r \<in> set (drop 2 (script w1)). \<not> (ret r < 0 \<and> err r = EINTR)) \<longrightarrow>
            (\<exists>this' w'. terminate force this w = Some (this', w')))
       \<and> (\<forall>this' w'. terminate force this w = Some (this', w') \<longrightarrow>
            (\<exists>pre post.
               trace w' = trace w @ pre
                 @ [Kill (child_pid this) (if force then SIGKILL else SIGTERM),
                    Ptrace PTRACE_DETACH (child_pid this)] @ post
               \<and> (\<forall>e\<in>set pre. \<not> is_Kill e \<and> \<not> is_Ptrace e)
               \<and> (\<forall>e\<in>set post. \<not> is_Kill e \<and> \<not> is_Ptrace e)))"
proof (intro conjI impI allI)
  from check_child_fields(3)[OF assms(2)] assms(1,3) have st: "state this1 = PTRACE_PAUSE" by auto
  assume "\<exists>r \<in> set (drop 2 (script w1)). \<not> (ret r < 0 \<and> err r = EINTR)"
  with st have "\<exists>r \<in> set (drop (if state this1 = PTRACE_PAUSE then 2 else 1) (script w1)).
               \<not> (ret r < 0 \<and> err r = EINTR)" by simp
  with assms(2,3) show "\<exists>this' w'. terminate force this w = Some (this', w')"
    by (rule terminate_alive_returns)
next
  fix this' w'
  assume t: "terminate force this w = Some (this', w')"
  from check_child_fields(3)[OF assms(2)] assms(1,3) have st: "state this1 = PTRACE_PAUSE" by auto
  from check_child_trace[OF assms(2)] obtain m logs1 where
    t1: "trace w1 = trace w @ replicate (Suc m) (Waitpid (child_pid this) WNOHANG) @ logs1"
    and l1: "\<forall>e\<in>set logs1. is_log e" by auto
  from terminate_alive_trace[OF assms(2,3) t] st obtain n logs where
    t2: "trace w' = trace w1 @ (if child_pid this \<le> 1 then [Log_bug] else [])
              @ Kill (child_pid this) (if force then SIGKILL else SIGTERM)
              # [Ptrace PTRACE_DETACH (child_pid this)]
              @ replicate (Suc n) (Waitpid (child_pid this) (if force then 0 else WNOHANG)) @ logs"
    and l2: "\<forall>e\<in>set logs. is_log e" by auto
  define pre where "pre = replicate (Suc m) (Waitpid (child_pid this) WNOHANG) @ logs1
                            @ (if child_pid this \<le> 1 then [Log_bug] else [])"
  define post where "post = replicate (Suc n) (Waitpid (child_pid this) (if force then 0 else WNOHANG)) @ logs"
  have p: "\<forall>e\<in>set pre. \<not> is_Kill e \<and> \<not> is_Ptrace e"
    using l1 by (auto simp: pre_def dest: is_log_not_call)
  have q: "\<forall>e\<in>set post. \<not> is_Kill e \<and> \<not> is_Ptrace e"
    using l2 by (auto simp: post_def dest: is_log_not_call)
  from t1 t2 have "trace w' = trace w @ pre
                 @ [Kill (child_pid this) (if force then SIGKILL else SIGTERM),
                    Ptrace PTRACE_DETACH (child_pid this)] @ post"
    by (simp add: pre_def post_def)
  with p q show "\<exists>pre post.
               trace w' = trace w @ pre
                 @ [Kill (child_pid this) (if force then SIGKILL else SIGTERM),
                    Ptrace PTRACE_DETACH (child_pid this)] @ post
               \<and> (\<forall>e\<in>set pre. \<not> is_Kill e \<and> \<not> is_Ptrace e)
               \<and> (\<forall>e\<in>set post. \<not> is_Kill e \<and> \<not> is_Ptrace e)"
    by blast
qed

theorem terminate_paused_kill_then_detach_witness:
  "state (tracker PTRACE_PAUSE) = PTRACE_PAUSE
   \<and> check_child False (tracker PTRACE_PAUSE)
        (fresh [returns 0, returns 0, returns 0, reports 100 15])
     = Some (tracker PTRACE_PAUSE,
             \<lparr>trace = [Waitpid 100 WNOHANG], script = [returns 0, returns 0, reports 100 15],
              errno = 0\<rparr>)
   \<and> state (tracker PTRACE_PAUSE) \<noteq> DIED
   \<and> terminate False (tracker PTRACE_PAUSE)
        (fresh [returns 0, returns 0, returns 0, reports 100 15])
     = Some ((tracker DIED)\<lparr>term_signal := 15\<rparr>,
             \<lparr>trace = [Waitpid 100 WNOHANG, Kill 100 SIGTERM, Ptrace PTRACE_DETACH 100,
                       Waitpid 100 WNOHANG],
              script = [], errno = 0\<rparr>)
   \<and> (\<exists>this' w'. terminate False (tracker PTRACE_PAUSE)
        (fresh [returns 0, returns 0, returns 0, reports 100 15]) = Some (this', w'))"
proof -
  have s: "state (tracker PTRACE_PAUSE) = PTRACE_PAUSE" by (simp add: tracker_def)
  have c: "check_child False (tracker PTRACE_PAUSE)
        (fresh [returns 0, returns 0, returns 0, reports 100 15])
     = Some (tracker PTRACE_PAUSE,
             \<lparr>trace = [Waitpid 100 WNOHANG], script = [returns 0, returns 0, reports 100 15],
              errno = 0\<rparr>)"
    by code_simp
  have nd: "state (tracker PTRACE_PAUSE) \<noteq> DIED" by (simp add: tracker_def)
  have h: "terminate False (tracker PTRACE_PAUSE)
        (fresh [returns 0, returns 0, returns 0, reports 100 15])
     = Some ((tracker DIED)\<lparr>term_signal := 15\<rparr>,
             \<lparr>trace = [Waitpid 100 WNOHANG, Kill 100 SIGTERM, Ptrace PTRACE_DETACH 100,
                       Waitpid 100 WNOHANG],
              script = [], errno = 0\<rparr>)"
    by code_simp
  have en: "\<exists>r \<in> set (drop 2 (script \<lparr>trace = [Waitpid 100 WNOHANG],
                 script = [returns 0, returns 0, reports 100 15], errno = 0\<rparr>)).
               \<not> (ret r < 0 \<and> err r = EINTR)"
    by (simp add: reports_def)
  from terminate_paused_kill_then_detach[OF s c nd, of False] en
  have "\<exists>this' w'. terminate False (tracker PTRACE_PAUSE)
        (fresh [returns 0, returns 0, returns 0, reports 100 15]) = Some (this', w')" by blast
  with s c nd h show ?thesis by blast
qed

section \<open>Command resolution (C6, C7)\<close>

text \<open>
  C6, as the claim states it, fails: a command of 255 tokens, the budget \<open>maxargs - 1\<close>,
  whose first token is found nowhere fails with "does not exist or is not executable", not
  with "Too many arguments"; and a command of exactly 255 tokens whose first token resolves
  does not succeed.
\<close>

theorem validate_cmd_budget_counterexample:
  "length (''ls'' # replicate 254 ''-l'') = maxargs - 1
   \<and> validate_cmd found_nowhere own_path (''ls'' # replicate 254 ''-l'') = Inl (NotFound ''ls'')
   \<and> validate_cmd found_once own_path (''ls'' # replicate 254 ''-l'')
       = Inl (TooManyArguments 255 255)"
  by (simp add: validate_cmd_no_candidate validate_cmd_one_candidate found_nowhere_def
        found_once_def maxargs_def)

text \<open>
  C6, amended. The result of \<open>validate_cmd\<close> on a non-empty command, case by case. When the
  first token resolves to a binary (one candidate, or several candidates with a single real
  path), it throws "Too many arguments" exactly when the number of tokens is at least
  \<open>maxargs - 1 = 255\<close>, and otherwise returns the command with the first candidate as its
  first token: 254 tokens are the largest accepted command and 255 tokens are refused. When
  the first token does not resolve, it fails with "does not exist or is not executable" (no
  candidate) or with the ambiguity error that reports the number of candidates, whatever
  the number of tokens.
\<close>

theorem validate_cmd_too_many_arguments:
  "validate_cmd rbp ap (c # args) =
     (if rbp c = [] then Inl (NotFound c)
      else if length (rbp c) = 1 \<or> card (uniq_abs_path ap (rbp c)) = 1
      then (if maxargs - 1 \<le> length (c # args)
            then Inl (TooManyArguments (length (c # args)) (maxargs - 1))
            else Inr (hd (rbp c) # args))
      else Inl (AmbiguousBinary c (length (rbp c))))
   \<and> maxargs - 1 = 255"
proof (cases "rbp c")
  case Nil
  then show ?thesis
    by (simp add: validate_cmd_no_candidate maxargs_def)
next
  case (Cons p ps)
  show ?thesis
  proof (cases ps)
    case Nil
    with Cons show ?thesis
      by (simp add: validate_cmd_one_candidate maxargs_def)
  next
    case (Cons q qs)
    with \<open>rbp c = p # ps\<close> have "rbp c = p # q # qs" by simp
    with validate_cmd_several[of rbp c p q qs ap args] show ?thesis
      by (simp add: maxargs_def)
  qed
qed

theorem validate_cmd_too_many_arguments_witness:
  "validate_cmd found_once own_path (''ls'' # replicate 253 ''-l'')
     = Inr (''/bin/ls'' # replicate 253 ''-l'')
   \<and> validate_cmd found_once own_path (''ls'' # replicate 254 ''-l'')
     = Inl (TooManyArguments 255 255)
   \<and> validate_cmd found_nowhere own_path (''ls'' # replicate 254 ''-l'')
     = Inl (NotFound ''ls'')
   \<and> validate_cmd found_twice own_path (''ls'' # replicate 254 ''-l'')
     = Inl (AmbiguousBinary ''ls'' 2)"
  using validate_cmd_too_many_arguments [of found_once own_path "''ls''" "replicate 253 ''-l''"]
        validate_cmd_too_many_arguments [of found_once own_path "''ls''" "replicate 254 ''-l''"]
        validate_cmd_too_many_arguments [of found_nowhere own_path "''ls''" "replicate 254 ''-l''"]
        validate_cmd_too_many_arguments [of found_twice own_path "''ls''" "replicate 254 ''-l''"]
  by (simp add: found_once_def found_nowhere_def found_twice_def own_path_def uniq_abs_path_def)

text \<open>
  C7, as the claim states it, fails: two candidates with one real path and a command of 255
  tokens. The candidate is accepted, and yet resolution fails, with "Too many arguments".
\<close>

theorem validate_cmd_same_file_counterexample:
  "2 \<le> length (found_twice ''ls'')
   \<and> card (uniq_abs_path same_file (found_twice ''ls'')) = 1
   \<and> validate_cmd found_twice same_file (''ls'' # replicate 254 ''-l'')
       = Inl (TooManyArguments 255 255)"
  by (simp add: validate_cmd_several found_twice_def same_file_def uniq_abs_path_def
        maxargs_def)

text \<open>
  C7, amended. For a command whose first token has \<open>N \<ge> 2\<close> candidates: when the real paths
  of the candidates (those that have one) form a set of size 1, the first raw candidate is
  taken as the executable, and resolution succeeds provided the command has fewer than 255
  tokens (with 255 or more it fails with "Too many arguments"); otherwise resolution fails
  with the ambiguity error that reports \<open>N\<close>.
\<close>

theorem validate_cmd_many_candidates_result:
  assumes "2 \<le> length (rbp c)"
  shows "validate_cmd rbp ap (c # args) =
     (if card (uniq_abs_path ap (rbp c)) = 1
      then (if length (c # args) < maxargs - 1
            then Inr (hd (rbp c) # args)
            else Inl (TooManyArguments (length (c # args)) (maxargs - 1)))
      else Inl (AmbiguousBinary c (length (rbp c))))"
proof -
  from assms obtain p q ps where "rbp c = p # q # ps"
    by (cases "rbp c"; cases "tl (rbp c)") auto
  with validate_cmd_several[of rbp c p q ps ap args] show ?thesis
    by auto
qed

theorem validate_cmd_many_candidates_result_witness:
  "validate_cmd found_twice same_file [''ls'', ''-l''] = Inr [''/bin/ls'', ''-l'']
   \<and> validate_cmd found_twice own_path [''ls'', ''-l''] = Inl (AmbiguousBinary ''ls'' 2)"
  using validate_cmd_many_candidates_result [of found_twice "''ls''" same_file "[''-l'']"]
        validate_cmd_many_candidates_result [of found_twice "''ls''" own_path "[''-l'']"]
  by (simp add: found_twice_def same_file_def own_path_def uniq_abs_path_def maxargs_def)

section \<open>The start gate over the lifetime of a tracker (C8)\<close>

text \<open>
  C8. One tracker from construction to destruction: launch (gate 3, child 100), \<open>run(false)\<close>,
  destructor. \<open>run\<close> closes the gate and leaves \<open>child_event_fd\<close> at 3, so the destructor
  closes descriptor 3 a second time.
\<close>

theorem gate_closed_twice:
  "ChildProc_ctor one_token found_once own_path (- 1) (- 1) ''ls''
       (fresh [returns 3, returns 100, returns 0, returns 8, returns 0,
               returns 0, returns 0, returns 0, returns 0, reports 100 9])
     = Some (Inr (tracker FORKED),
             \<lparr>trace = [Alloc_child_args, Alloc_child_stack STACK_SIZE, Eventfd,
                       Clone [''/bin/ls''] 3, Free_child_stack, Free_child_args],
              script = [returns 0, returns 8, returns 0,
                        returns 0, returns 0, returns 0, returns 0, reports 100 9],
              errno = 0\<rparr>)
   \<and> run False 0 (tracker FORKED)
       \<lparr>trace = [Alloc_child_args, Alloc_child_stack STACK_SIZE, Eventfd,
                 Clone [''/bin/ls''] 3, Free_child_stack, Free_child_args],
        script = [returns 0, returns 8, returns 0,
                  returns 0, returns 0, returns 0, returns 0, reports 100 9],
        errno = 0\<rparr>
     = Some (Inr (), tracker RUNNING,
             \<lparr>trace = [Alloc_child_args, Alloc_child_stack STACK_SIZE, Eventfd,
                       Clone [''/bin/ls''] 3, Free_child_stack, Free_child_args,
                       Waitpid 100 WNOHANG, Write 3 CHILD_GO, Close 3],
              script = [returns 0, returns 0, returns 0, returns 0, reports 100 9],
              errno = 0\<rparr>)
   \<and> ChildProc_dtor (tracker RUNNING)
       \<lparr>trace = [Alloc_child_args, Alloc_child_stack STACK_SIZE, Eventfd,
                 Clone [''/bin/ls''] 3, Free_child_stack, Free_child_args,
                 Waitpid 100 WNOHANG, Write 3 CHILD_GO, Close 3],
        script = [returns 0, returns 0, returns 0, returns 0, reports 100 9],
        errno = 0\<rparr>
     = Some ((tracker DIED)\<lparr>term_signal := 9\<rparr>,
             \<lparr>trace = [Alloc_child_args, Alloc_child_stack STACK_SIZE, Eventfd,
                       Clone [''/bin/ls''] 3, Free_child_stack, Free_child_args,
                       Waitpid 100 WNOHANG, Write 3 CHILD_GO, Close 3,
                       Close 3, Waitpid 100 WNOHANG, Waitpid 100 WNOHANG, Kill 100 SIGKILL,
                       Waitpid 100 0],
              script = [], errno = 0\<rparr>)"
  apply (intro conjI)
    apply (simp add: ChildProc_ctor_def one_token_def found_once_def validate_cmd_def maxargs_def
        fresh_def returns_def fails_with_def syscall_def emit_def tracker_def Let_def)
   apply (simp add: run_def is_alive_def check_child_def waitpid_retry.simps died_def
        returns_def syscall_def emit_def tracker_def WNOHANG_def EINTR_def)
  apply (simp add: ChildProc_dtor_def terminate_def is_alive_def check_child_def waitpid_retry.simps died_def
        returns_def reports_def syscall_def emit_def tracker_def WNOHANG_def EINTR_def SIGKILL_def
        check_wstatus_def WIFEXITED_def WIFSIGNALED_def WTERMSIG_def)
  done

theorem gate_closed_twice_witness:
  "map_option snd
     (ChildProc_dtor (tracker RUNNING)
       \<lparr>trace = [Alloc_child_args, Alloc_child_stack STACK_SIZE, Eventfd,
                 Clone [''/bin/ls''] 3, Free_child_stack, Free_child_args,
                 Waitpid 100 WNOHANG, Write 3 CHILD_GO, Close 3],
        script = [returns 0, returns 0, returns 0, returns 0, reports 100 9],
        errno = 0\<rparr>)
     = Some \<lparr>trace = [Alloc_child_args, Alloc_child_stack STACK_SIZE, Eventfd,
                      Clone [''/bin/ls''] 3, Free_child_stack, Free_child_args,
                      Waitpid 100 WNOHANG, Write 3 CHILD_GO, Close 3,
                      Close 3, Waitpid 100 WNOHANG, Waitpid 100 WNOHANG, Kill 100 SIGKILL,
                      Waitpid 100 0],
             script = [], errno = 0\<rparr>"
  using gate_closed_twice by simp

section \<open>Termination of a dead tracker and repeated termination (C9)\<close>

text \<open>
  C9, as the claim states it, fails. Two calls of \<open>terminate(false)\<close> on a running child
  that does not die: each call polls, sends \<open>SIGTERM\<close> and polls again, so the signal is
  delivered twice and the tracker is still \<open>RUNNING\<close>, the child unreaped. And on a tracker
  that is already \<open>DIED\<close>, a poll that still reports an exit status for the process id
  overwrites \<open>exit_code\<close>.
\<close>

theorem terminate_twice_counterexample:
  "terminate False (tracker RUNNING)
      (fresh [returns 0, returns 0, returns 0, returns 0, returns 0, returns 0])
     = Some (tracker RUNNING,
             \<lparr>trace = [Waitpid 100 WNOHANG, Kill 100 SIGTERM, Waitpid 100 WNOHANG],
              script = [returns 0, returns 0, returns 0], errno = 0\<rparr>)
   \<and> terminate False (tracker RUNNING)
       \<lparr>trace = [Waitpid 100 WNOHANG, Kill 100 SIGTERM, Waitpid 100 WNOHANG],
        script = [returns 0, returns 0, returns 0], errno = 0\<rparr>
     = Some (tracker RUNNING,
             \<lparr>trace = [Waitpid 100 WNOHANG, Kill 100 SIGTERM, Waitpid 100 WNOHANG,
                       Waitpid 100 WNOHANG, Kill 100 SIGTERM, Waitpid 100 WNOHANG],
              script = [], errno = 0\<rparr>)
   \<and> terminate True (tracker DIED) (fresh [reports 100 0x0300])
     = Some ((tracker DIED)\<lparr>exit_code := 3\<rparr>,
             \<lparr>trace = [Waitpid 100 WNOHANG], script = [], errno = 0\<rparr>)"
  by code_simp

text \<open>
  C9, amended. \<open>terminate\<close> on a tracker that is already \<open>DIED\<close> only polls. It returns as
  soon as the operating system answers the poll with anything but an interrupted call; the
  state stays \<open>DIED\<close>, the process id and the gate are unchanged, no signal is sent and no
  \<open>ptrace\<close> call is made. The replies it consumes are the interrupted calls and the answer
  \<open>r\<close> of the poll; \<open>exit_code\<close> and \<open>term_signal\<close> change only as \<open>check_wstatus\<close>
  sets them when \<open>r\<close> itself reports a process id (or fails with \<open>EINVAL\<close>), and the object
  is unchanged otherwise. So a call of \<open>terminate\<close> that follows a call which left the
  tracker \<open>DIED\<close> delivers no signal.
\<close>

theorem terminate_dead_is_noop:
  assumes "state this = DIED"
  shows "((\<exists>r \<in> set (script w). \<not> (ret r < 0 \<and> err r = EINTR)) \<longrightarrow>
            (\<exists>this' w'. terminate force this w = Some (this', w')))
       \<and> (\<forall>this' w'. terminate force this w = Some (this', w') \<longrightarrow>
            state this' = DIED \<and> child_pid this' = child_pid this
            \<and> child_event_fd this' = child_event_fd this
            \<and> filter (\<lambda>e. is_Kill e \<or> is_Ptrace e) (drop (length (trace w)) (trace w')) = []
            \<and> (\<exists>pre r. script w = pre @ r # script w'
                  \<and> (\<forall>q \<in> set pre. ret q < 0 \<and> err q = EINTR)
                  \<and> this' = (if 0 < ret r then check_wstatus (wstatus_out r) this
                              else if ret r < 0 \<and> err r = EINVAL then check_wstatus 0 this
                              else this)))"
proof (intro conjI impI allI)
  assume "\<exists>r \<in> set (script w). \<not> (ret r < 0 \<and> err r = EINTR)"
  with assms show "\<exists>this' w'. terminate force this w = Some (this', w')"
    by (rule terminate_dead_returns)
next
  fix this' w'
  assume t: "terminate force this w = Some (this', w')"
  from terminate_Some[OF t] assms
  have c: "check_child False this w = Some (this', w')"
    by (auto dest: check_child_dead)
  from check_child_trace[OF c] obtain n logs where
    tr: "trace w' = trace w @ replicate (Suc n) (Waitpid (child_pid this) WNOHANG) @ logs"
    and l: "\<forall>e\<in>set logs. is_log e" by auto
  have "filter (\<lambda>e. is_Kill e \<or> is_Ptrace e)
          (replicate (Suc n) (Waitpid (child_pid this) WNOHANG) @ logs) = []"
    using l by (auto simp: filter_empty_conv dest: is_log_not_call)
  with tr show "filter (\<lambda>e. is_Kill e \<or> is_Ptrace e) (drop (length (trace w)) (trace w')) = []"
    by simp
  from check_child_dead[OF c assms] show "state this' = DIED" .
  from check_child_fields(1)[OF c] show "child_pid this' = child_pid this" .
  from check_child_fields(2)[OF c] show "child_event_fd this' = child_event_fd this" .
  have same: "this\<lparr>state := DIED\<rparr> = this" using assms by (cases this) simp
  from check_child_exact[OF c] obtain pre r where
    p: "script w = pre @ r # script w'" "\<forall>q \<in> set pre. ret q < 0 \<and> err q = EINTR"
       "this' = (if 0 < ret r then check_wstatus (wstatus_out r) this
                       else if ret r = 0 then this
                       else if err r = EINVAL then check_wstatus 0 this
                       else this\<lparr>state := DIED\<rparr>)" by blast
  from p(3) same have "this' = (if 0 < ret r then check_wstatus (wstatus_out r) this
                              else if ret r < 0 \<and> err r = EINVAL then check_wstatus 0 this
                              else this)"
    by auto
  with p(1,2) show "\<exists>pre r. script w = pre @ r # script w'
                  \<and> (\<forall>q \<in> set pre. ret q < 0 \<and> err q = EINTR)
                  \<and> this' = (if 0 < ret r then check_wstatus (wstatus_out r) this
                              else if ret r < 0 \<and> err r = EINVAL then check_wstatus 0 this
                              else this)"
    by blast
qed

theorem terminate_dead_is_noop_witness:
  "terminate True (tracker RUNNING) (fresh [returns 0, returns 0, reports 100 9, fails_with ECHILD])
     = Some ((tracker DIED)\<lparr>term_signal := 9\<rparr>,
             \<lparr>trace = [Waitpid 100 WNOHANG, Kill 100 SIGKILL, Waitpid 100 0],
              script = [fails_with ECHILD], errno = 0\<rparr>)
   \<and> state ((tracker DIED)\<lparr>term_signal := 9\<rparr>) = DIED
   \<and> terminate True ((tracker DIED)\<lparr>term_signal := 9\<rparr>)
         \<lparr>trace = [Waitpid 100 WNOHANG, Kill 100 SIGKILL, Waitpid 100 0],
          script = [fails_with ECHILD], errno = 0\<rparr>
     = Some ((tracker DIED)\<lparr>term_signal := 9\<rparr>,
             \<lparr>trace = [Waitpid 100 WNOHANG, Kill 100 SIGKILL, Waitpid 100 0,
                       Waitpid 100 WNOHANG, Log_warning 100 ECHILD],
              script = [], errno = ECHILD\<rparr>)
   \<and> (\<exists>this' w'. terminate True ((tracker DIED)\<lparr>term_signal := 9\<rparr>)
         \<lparr>trace = [Waitpid 100 WNOHANG, Kill 100 SIGKILL, Waitpid 100 0],
          script = [fails_with ECHILD], errno = 0\<rparr> = Some (this', w'))"
proof -
  have f: "terminate True (tracker RUNNING) (fresh [returns 0, returns 0, reports 100 9, fails_with ECHILD])
     = Some ((tracker DIED)\<lparr>term_signal := 9\<rparr>,
             \<lparr>trace = [Waitpid 100 WNOHANG, Kill 100 SIGKILL, Waitpid 100 0],
              script = [fails_with ECHILD], errno = 0\<rparr>)"
    by code_simp
  have s: "state ((tracker DIED)\<lparr>term_signal := 9\<rparr>) = DIED" by (simp add: tracker_def)
  have h: "terminate True ((tracker DIED)\<lparr>term_signal := 9\<rparr>)
         \<lparr>trace = [Waitpid 100 WNOHANG, Kill 100 SIGKILL, Waitpid 100 0],
          script = [fails_with ECHILD], errno = 0\<rparr>
     = Some ((tracker DIED)\<lparr>term_signal := 9\<rparr>,
             \<lparr>trace = [Waitpid 100 WNOHANG, Kill 100 SIGKILL, Waitpid 100 0,
                       Waitpid 100 WNOHANG, Log_warning 100 ECHILD],
              script = [], errno = ECHILD\<rparr>)"
    by code_simp
  have en: "\<exists>r \<in> set (script \<lparr>trace = [Waitpid 100 WNOHANG, Kill 100 SIGKILL, Waitpid 100 0],
          script = [fails_with ECHILD], errno = 0\<rparr>). \<not> (ret r < 0 \<and> err r = EINTR)"
    by (simp add: fails_with_def ECHILD_def EINTR_def)
  from terminate_dead_is_noop[OF s, of _ True] en
  have "\<exists>this' w'. terminate True ((tracker DIED)\<lparr>term_signal := 9\<rparr>)
         \<lparr>trace = [Waitpid 100 WNOHANG, Kill 100 SIGKILL, Waitpid 100 0],
          script = [fails_with ECHILD], errno = 0\<rparr> = Some (this', w')" by blast
  with f s h show ?thesis by blast
qed

section \<open>The child: which token pauses (C10)\<close>

text \<open>
  C10. When \<open>prctl\<close> and the \<open>read\<close> of the start gate succeed (and the argument vector
  fits), the child closes the gate and then marks itself traceable and stops itself exactly
  when the token it read equals \<open>CHILD_PTRACE\<close>; with every other token, \<open>CHILD_GO\<close> or
  not, the call after \<open>close\<close> is \<open>execve\<close> of the target.
\<close>

theorem childfn_pause_only_on_CHILD_PTRACE:
  assumes "prctl_ret os = 0" and "0 \<le> read_ret os" and "cmd \<noteq> []" and "length cmd < maxargs"
  shows "fst (childfn os cmd fd) =
           [C_prctl_PDEATHSIG, C_read fd, C_close fd]
           @ (if read_value os = CHILD_PTRACE
              then [C_ptrace_TRACEME]
                   @ (if traceme_ret os < 0 then [C_perror ''child: ptrace(traceme) failed''] else [])
                   @ [C_kill_self SIGSTOP]
                   @ (if kill_ret os \<noteq> 0 then [C_perror ''child: failed to stop''] else [])
              else [])
           @ [C_execve (hd cmd) cmd]
           @ (if execve_errno os = None then []
              else [C_perror (''child: failed to execve: '' @ hd cmd)])
       \<and> (C_ptrace_TRACEME \<in> set (fst (childfn os cmd fd)) \<longleftrightarrow> read_value os = CHILD_PTRACE)
       \<and> (C_kill_self SIGSTOP \<in> set (fst (childfn os cmd fd)) \<longleftrightarrow> read_value os = CHILD_PTRACE)
       \<and> CHILD_GO \<noteq> CHILD_PTRACE"
proof -
  from assms(3) obtain argv0 rest where c: "cmd = argv0 # rest" by (cases cmd) auto
  have ev: "fst (childfn os cmd fd) =
           [C_prctl_PDEATHSIG, C_read fd, C_close fd]
           @ (if read_value os = CHILD_PTRACE
              then [C_ptrace_TRACEME]
                   @ (if traceme_ret os < 0 then [C_perror ''child: ptrace(traceme) failed''] else [])
                   @ [C_kill_self SIGSTOP]
                   @ (if kill_ret os \<noteq> 0 then [C_perror ''child: failed to stop''] else [])
              else [])
           @ [C_execve (hd cmd) cmd]
           @ (if execve_errno os = None then []
              else [C_perror (''child: failed to execve: '' @ hd cmd)])"
    using assms c by (cases "execve_errno os") (simp_all add: childfn_def Let_def)
  have go: "CHILD_GO \<noteq> CHILD_PTRACE" by (simp add: CHILD_GO_def CHILD_PTRACE_def)
  show ?thesis
    unfolding ev using go by auto
qed

theorem childfn_pause_only_on_CHILD_PTRACE_witness:
  "childfn token_A [''/bin/ls'', ''-l''] 3
     = ([C_prctl_PDEATHSIG, C_read 3, C_close 3, C_execve ''/bin/ls'' [''/bin/ls'', ''-l'']],
        Image_replaced)
   \<and> read_value token_A \<noteq> CHILD_GO \<and> read_value token_A \<noteq> CHILD_PTRACE
   \<and> C_ptrace_TRACEME \<notin> set (fst (childfn token_A [''/bin/ls'', ''-l''] 3))"
proof -
  have a: "prctl_ret token_A = 0" "0 \<le> read_ret token_A" "[''/bin/ls'', ''-l''] \<noteq> []"
    "length [''/bin/ls'', ''-l''] < maxargs"
    by (simp_all add: token_A_def maxargs_def)
  have v: "read_value token_A \<noteq> CHILD_GO" "read_value token_A \<noteq> CHILD_PTRACE"
    by (simp_all add: token_A_def CHILD_GO_def CHILD_PTRACE_def)
  have o: "childfn token_A [''/bin/ls'', ''-l''] 3
     = ([C_prctl_PDEATHSIG, C_read 3, C_close 3, C_execve ''/bin/ls'' [''/bin/ls'', ''-l'']],
        Image_replaced)"
    by code_simp
  from childfn_pause_only_on_CHILD_PTRACE[OF a, of 3] v o show ?thesis
    by simp
qed

end
